theory Spec2Isabelle
  imports Complex_Main "HOL-Library.Word"
begin

unbundle bit_operations_syntax

section \<open>Data model of \<^verbatim>\<open>nominatim/api/types.py\<close>\<close>

text \<open>
  Python values are modelled as follows: \<^verbatim>\<open>bytes\<close> is a list of 8-bit words, \<^verbatim>\<open>int\<close> is
  \<open>int\<close>, \<^verbatim>\<open>str\<close> is \<open>string\<close>, and a \<^verbatim>\<open>float\<close> is the 64-bit pattern of its IEEE-754
  binary64 representation (sign bit 63, exponent field bits 62..52, fraction bits 51..0).
  A raised exception is the \<open>Inl\<close> branch of a sum.
\<close>

type_synonym byte = "8 word"
type_synonym double = "64 word"

datatype error = ValueError string | StructError string

subsection \<open>PlaceID and OsmID\<close>

record PlaceID =
  place_id :: int

record OsmID =
  osm_type :: string
  osm_id :: int
  osm_class :: "string option"

datatype PlaceRef = Ref_PlaceID PlaceID | Ref_OsmID OsmID

text \<open>\<^verbatim>\<open>OsmID.__post_init__\<close>: the check of the element type, with the f-string message.\<close>

definition OsmID_post_init :: "OsmID \<Rightarrow> error + unit" where
  "OsmID_post_init self =
     (if osm_type self \<notin> set [''N'', ''W'', ''R'']
      then Inl (ValueError (''Illegal OSM type '' @ [CHR 0x27] @ osm_type self @ [CHR 0x27]
                            @ ''. Must be one of N, W, R.''))
      else Inr ())"

text \<open>
  The constructor that \<^verbatim>\<open>@dataclasses.dataclass\<close> generates: it stores the three fields
  (\<^verbatim>\<open>osm_class\<close> defaults to \<^verbatim>\<open>None\<close>) and then runs \<^verbatim>\<open>__post_init__\<close>.
\<close>

definition OsmID_init :: "string \<Rightarrow> int \<Rightarrow> string option \<Rightarrow> error + OsmID" where
  "OsmID_init t i c =
     (let self = \<lparr>osm_type = t, osm_id = i, osm_class = c\<rparr>
      in case OsmID_post_init self of Inl e \<Rightarrow> Inl e | Inr u \<Rightarrow> Inr self)"

text \<open>
  The decorator is used without \<^verbatim>\<open>frozen=True\<close>, so the fields of an instance stay
  assignable; an assignment stores the value and runs no check.
\<close>

datatype OsmID_assign = Set_osm_type string | Set_osm_id int | Set_osm_class "string option"

fun OsmID_setattr :: "OsmID \<Rightarrow> OsmID_assign \<Rightarrow> OsmID" where
  "OsmID_setattr self (Set_osm_type v) = self\<lparr>osm_type := v\<rparr>"
| "OsmID_setattr self (Set_osm_id v) = self\<lparr>osm_id := v\<rparr>"
| "OsmID_setattr self (Set_osm_class v) = self\<lparr>osm_class := v\<rparr>"

subsection \<open>Reading packed binary data (\<^verbatim>\<open>struct.unpack\<close>)\<close>

datatype byteorder = BigEndian | LittleEndian

text \<open>The bytes of a field, most significant first, as one word.\<close>

definition from_be :: "byte list \<Rightarrow> 'a::len word" where
  "from_be bs = foldl (\<lambda>acc b. push_bit 8 acc OR ucast b) 0 bs"

definition from_bytes :: "byteorder \<Rightarrow> byte list \<Rightarrow> 'a::len word" where
  "from_bytes ord bs = (case ord of BigEndian \<Rightarrow> from_be bs | LittleEndian \<Rightarrow> from_be (rev bs))"

text \<open>Format code \<^verbatim>\<open>i\<close>: a signed 32-bit integer. Format code \<^verbatim>\<open>d\<close>: a binary64 float.\<close>

definition unpack_i :: "byteorder \<Rightarrow> byte list \<Rightarrow> int" where
  "unpack_i ord bs = sint (from_bytes ord bs :: 32 word)"

definition unpack_d :: "byteorder \<Rightarrow> byte list \<Rightarrow> double" where
  "unpack_d ord bs = from_bytes ord bs"

text \<open>
  \<^verbatim>\<open>unpack('>iidd', buf)\<close> and \<^verbatim>\<open>unpack('<iidd', buf)\<close>: standard sizes, no padding, so
  the buffer must hold exactly 24 bytes; \<^verbatim>\<open>struct.error\<close> otherwise.
\<close>

definition unpack_iidd :: "byteorder \<Rightarrow> byte list \<Rightarrow> error + (int \<times> int \<times> double \<times> double)" where
  "unpack_iidd ord buf =
     (if length buf \<noteq> 24 then Inl (StructError ''unpack requires a buffer of 24 bytes'')
      else Inr (unpack_i ord (take 4 buf),
                unpack_i ord (take 4 (drop 4 buf)),
                unpack_d ord (take 8 (drop 8 buf)),
                unpack_d ord (take 8 (drop 16 buf))))"

subsection \<open>Point\<close>

datatype Point = Point (Point_x: double) (Point_y: double)

definition lat :: "Point \<Rightarrow> double" where
  "lat self = Point_y self"

definition lon :: "Point \<Rightarrow> double" where
  "lon self = Point_x self"

definition from_wkb :: "byte list \<Rightarrow> error + Point" where
  "from_wkb wkb =
     (if length wkb \<noteq> 25 then Inl (ValueError ''Point wkb has unexpected length'')
      else
        case (if wkb ! 0 = 0 then unpack_iidd BigEndian (drop 1 wkb)
              else if wkb ! 0 = 1 then unpack_iidd LittleEndian (drop 1 wkb)
              else Inl (ValueError ''WKB has unknown endian value.''))
        of Inl e \<Rightarrow> Inl e
         | Inr (gtype, srid, x, y) \<Rightarrow>
             if gtype \<noteq> 0x20000001 then Inl (ValueError ''WKB must be a point geometry.'')
             else if srid \<noteq> 4326 then Inl (ValueError ''Only WGS84 WKB supported.'')
             else Inr (Point x y))"

subsection \<open>The text form of a float\<close>

text \<open>
  \<^verbatim>\<open>to_geojson\<close> puts \<^verbatim>\<open>{self.x}\<close> and \<^verbatim>\<open>{self.y}\<close> into an f-string with an empty format
  specification, which for a float is \<^verbatim>\<open>repr\<close>: \<^verbatim>\<open>nan\<close>, \<^verbatim>\<open>inf\<close> and \<^verbatim>\<open>-inf\<close> for the
  non-finite values, and otherwise the shortest string of decimal digits that reads back
  as the same double (the one nearest to it when there are several), laid out in
  positional notation with at least one digit after the point, or with an exponent when
  the decimal point position is at most -4 or above 16.
\<close>

definition double_sign :: "double \<Rightarrow> bool" where
  "double_sign d = bit d 63"

definition double_exponent :: "double \<Rightarrow> int" where
  "double_exponent d = uint (take_bit 11 (drop_bit 52 d))"

definition double_fraction :: "double \<Rightarrow> int" where
  "double_fraction d = uint (take_bit 52 d)"



text \<open>The real number a finite double stands for.\<close>

definition double_value :: "double \<Rightarrow> real" where
  "double_value d =
     (let E = double_exponent d; F = double_fraction d;
          m = (if E = 0 then F else 2 ^ 52 + F);
          e = (if E = 0 then - 1074 else E - 1075)
      in (if double_sign d then - 1 else 1) * (of_int m * 2 ^ nat e / 2 ^ nat (- e)))"

text \<open>The decimal digits of a non-negative integer.\<close>

fun str_nat :: "int \<Rightarrow> string" where
  "str_nat n = (if n < 10 then [''0123456789'' ! nat n]
                else str_nat (n div 10) @ [''0123456789'' ! nat (n mod 10)])"

declare str_nat.simps [simp del]

definition pow10 :: "int \<Rightarrow> int" where
  "pow10 k = 10 ^ nat k"

primrec first_some :: "nat \<Rightarrow> (int \<Rightarrow> 'a option) \<Rightarrow> int \<Rightarrow> 'a option" where
  "first_some 0 f n = None"
| "first_some (Suc fuel) f n =
     (case f n of Some r \<Rightarrow> Some r | None \<Rightarrow> first_some fuel f (n + 1))"

text \<open>
  The value is \<open>v / sd\<close>, a positive fraction of integers. \<open>decimal_point\<close> is the least
  \<open>p\<close> with \<open>v / sd < 10 ^ p\<close>; for a value below 1 it is looked for among the first 400
  decimal places, more than the smallest double needs.
\<close>

definition decimal_point :: "int \<Rightarrow> int \<Rightarrow> int" where
  "decimal_point v sd =
     (if sd \<le> v then int (length (str_nat (v div sd)))
      else case first_some 400 (\<lambda>j. if sd \<le> v * pow10 j then Some (1 - j) else None) 1 of
             Some p \<Rightarrow> p | None \<Rightarrow> - 400)"

text \<open>
  Whether the decimal \<open>D * 10 ^ k\<close> reads back as the double: it lies between the
  midpoints \<open>lo / sd\<close> and \<open>hi / sd\<close> to the neighbouring doubles, the midpoints
  themselves counting when the fraction field is even (ties round to even).
\<close>

definition in_interval :: "bool \<Rightarrow> int \<Rightarrow> int \<Rightarrow> int \<Rightarrow> int \<Rightarrow> int \<Rightarrow> bool" where
  "in_interval incl lo hi sd D k =
     (let x = D * pow10 k * sd; l = lo * pow10 (- k); h = hi * pow10 (- k)
      in if incl then l \<le> x \<and> x \<le> h else l < x \<and> x < h)"

definition digits_at :: "int \<Rightarrow> int \<Rightarrow> int \<Rightarrow> int" where
  "digits_at v sd k = (v * pow10 (- k)) div (sd * pow10 k)"

definition nearest :: "int \<Rightarrow> int \<Rightarrow> int \<Rightarrow> int \<Rightarrow> int" where
  "nearest v sd Dlo k =
     (let mid = (2 * Dlo + 1) * pow10 k * sd; v2 = 2 * v * pow10 (- k)
      in if mid < v2 \<or> (mid = v2 \<and> odd Dlo) then Dlo + 1 else Dlo)"

definition try_digits ::
  "bool \<Rightarrow> int \<Rightarrow> int \<Rightarrow> int \<Rightarrow> int \<Rightarrow> int \<Rightarrow> int \<Rightarrow> (int \<times> int) option" where
  "try_digits incl v lo hi sd p n =
     (let k = p - n; Dlo = digits_at v sd k;
          lo_ok = in_interval incl lo hi sd Dlo k;
          hi_ok = in_interval incl lo hi sd (Dlo + 1) k
      in if lo_ok \<and> hi_ok then Some (nearest v sd Dlo k, k)
         else if lo_ok then Some (Dlo, k)
         else if hi_ok then Some (Dlo + 1, k)
         else None)"

text \<open>
  The shortest digit string is looked for with 1 to 16 digits; 17 digits identify every
  double, so after that the nearest decimal of 17 digits is taken.
\<close>

definition shortest :: "bool \<Rightarrow> int \<Rightarrow> int \<Rightarrow> int \<Rightarrow> int \<Rightarrow> int \<Rightarrow> int \<times> int" where
  "shortest incl v lo hi sd p =
     (case first_some 16 (try_digits incl v lo hi sd p) 1 of
        Some r \<Rightarrow> r
      | None \<Rightarrow> (nearest v sd (digits_at v sd (p - 17)) (p - 17), p - 17))"

definition rstrip0 :: "string \<Rightarrow> string" where
  "rstrip0 s = rev (dropWhile (\<lambda>c. c = CHR ''0'') (rev s))"

text \<open>
  The digits and the decimal point position of a finite non-zero double with exponent
  field \<open>E\<close> and fraction field \<open>F\<close>. All quantities are counted in quarters of the
  unit in the last place, so that both midpoints are integers.
\<close>

definition dtoa :: "int \<Rightarrow> int \<Rightarrow> string \<times> int" where
  "dtoa E F =
     (let m = (if E = 0 then F else 2 ^ 52 + F);
          q = (if E = 0 then - 1074 else E - 1075) - 2;
          sn = 2 ^ nat q; sd = 2 ^ nat (- q);
          v = 4 * m * sn;
          hi = (4 * m + 2) * sn;
          lo = (4 * m - (if F = 0 \<and> 2 \<le> E then 1 else 2)) * sn;
          p = decimal_point v sd;
          (D, k) = shortest (even F) v lo hi sd p;
          s = str_nat D
      in (rstrip0 s, k + int (length s)))"

definition format_float_short :: "string \<Rightarrow> int \<Rightarrow> string" where
  "format_float_short digits decpt =
     (let n = int (length digits) in
      if decpt \<le> - 4 \<or> 16 < decpt then
        (let ex = decpt - 1; a = str_nat \<bar>ex\<bar>
         in take 1 digits @ (if 1 < n then ''.'' @ drop 1 digits else [])
            @ ''e'' @ (if ex < 0 then ''-'' else ''+'')
            @ (if length a < 2 then ''0'' else []) @ a)
      else if decpt \<le> 0 then ''0.'' @ replicate (nat (- decpt)) CHR ''0'' @ digits
      else if decpt < n then take (nat decpt) digits @ ''.'' @ drop (nat decpt) digits
      else digits @ replicate (nat (decpt - n)) CHR ''0'' @ ''.0'')"

definition float_repr :: "double \<Rightarrow> string" where
  "float_repr d =
     (let E = double_exponent d; F = double_fraction d in
      if E = 2047 then (if F \<noteq> 0 then ''nan'' else if double_sign d then ''-inf'' else ''inf'')
      else (if double_sign d then ''-'' else [])
           @ (if E = 0 \<and> F = 0 then ''0.0''
              else case dtoa E F of (digits, decpt) \<Rightarrow> format_float_short digits decpt))"


subsection \<open>GeometryFormat\<close>

text \<open>
  An \<^verbatim>\<open>enum.Flag\<close>: \<^verbatim>\<open>NONE\<close> is 0 and each \<^verbatim>\<open>enum.auto()\<close> takes the next power of two.
  The values of the class are the combinations of the four bits, so a value is a 4-bit
  word. \<^verbatim>\<open>a | b\<close> is the member whose value is the bitwise or; \<^verbatim>\<open>other in self\<close> holds
  when every bit of \<^verbatim>\<open>other\<close> is set in \<^verbatim>\<open>self\<close>.
\<close>

datatype GeometryFormat = GeometryFormat (flag_value: "4 word")

definition NONE :: GeometryFormat where
  "NONE = GeometryFormat 0"

definition GEOJSON :: GeometryFormat where
  "GEOJSON = GeometryFormat 1"

definition KML :: GeometryFormat where
  "KML = GeometryFormat 2"

definition SVG :: GeometryFormat where
  "SVG = GeometryFormat 4"

definition TEXT :: GeometryFormat where
  "TEXT = GeometryFormat 8"

definition flag_or :: "GeometryFormat \<Rightarrow> GeometryFormat \<Rightarrow> GeometryFormat" where
  "flag_or a b = GeometryFormat (flag_value a OR flag_value b)"

definition flag_contains :: "GeometryFormat \<Rightarrow> GeometryFormat \<Rightarrow> bool" where
  "flag_contains self other = (flag_value other AND flag_value self = flag_value other)"

subsection \<open>LookupDetails\<close>

record LookupDetails =
  geometry_output :: GeometryFormat
  address_details :: bool
  linked_places :: bool
  parented_places :: bool
  "keywords" :: bool

text \<open>
  The generated constructor: every parameter is optional (\<open>None\<close> stands for an argument
  that the call leaves out) and has the default that the class body gives.
\<close>

definition LookupDetails_init ::
  "GeometryFormat option \<Rightarrow> bool option \<Rightarrow> bool option \<Rightarrow> bool option \<Rightarrow> bool option
   \<Rightarrow> LookupDetails" where
  "LookupDetails_init g a l p k =
     \<lparr>geometry_output = (case g of None \<Rightarrow> NONE | Some v \<Rightarrow> v),
      address_details = (case a of None \<Rightarrow> False | Some v \<Rightarrow> v),
      linked_places = (case l of None \<Rightarrow> False | Some v \<Rightarrow> v),
      parented_places = (case p of None \<Rightarrow> False | Some v \<Rightarrow> v),
      keywords = (case k of None \<Rightarrow> False | Some v \<Rightarrow> v)\<rparr>"

subsection \<open>The extended well-known-binary layout of a point\<close>

text \<open>
  Modelled from the spec: the encoder is not part of the repository (the storage layer
  produces the buffers). This is the 25-byte layout of section 4.2 of the specification:
  one byte for the byte order (0 for big-endian, 1 for little-endian), then the
  geometry-type code and the spatial-reference identifier as 4-byte integers, then x and
  y as 8-byte doubles, every field in the chosen byte order and with no padding.
\<close>

definition to_bytes :: "byteorder \<Rightarrow> nat \<Rightarrow> 'a::len word \<Rightarrow> byte list" where
  "to_bytes ord n w =
     (let le = map (\<lambda>i. ucast (drop_bit (8 * i) w)) [0..<n]
      in case ord of BigEndian \<Rightarrow> rev le | LittleEndian \<Rightarrow> le)"

definition ewkb_point :: "byteorder \<Rightarrow> int \<Rightarrow> int \<Rightarrow> double \<Rightarrow> double \<Rightarrow> byte list" where
  "ewkb_point ord gtype srid x y =
     (case ord of BigEndian \<Rightarrow> 0 | LittleEndian \<Rightarrow> 1)
     # to_bytes ord 4 (word_of_int gtype :: 32 word)
     @ to_bytes ord 4 (word_of_int srid :: 32 word)
     @ to_bytes ord 8 x
     @ to_bytes ord 8 y"

subsection \<open>Well-formed JSON text\<close>


















section \<open>Verified properties\<close>

subsection \<open>OsmID\<close>

text \<open>
  C4. For every string \<open>s\<close>, constructing an \<open>OsmID\<close> with element type \<open>s\<close> succeeds
  exactly when \<open>s\<close> is one of \<^verbatim>\<open>N\<close>, \<^verbatim>\<open>W\<close>, \<^verbatim>\<open>R\<close>. For any other string the constructor
  itself fails with a \<open>ValueError\<close> whose message quotes the illegal value.
\<close>

theorem OsmID_init_validates:
  "OsmID_init s i c =
     (if s = ''N'' \<or> s = ''W'' \<or> s = ''R''
      then Inr \<lparr>osm_type = s, osm_id = i, osm_class = c\<rparr>
      else Inl (ValueError (''Illegal OSM type '' @ [CHR 0x27] @ s @ [CHR 0x27]
                            @ ''. Must be one of N, W, R.'')))
   \<and> (\<exists>self. OsmID_init s i c = Inr self) = (s = ''N'' \<or> s = ''W'' \<or> s = ''R'')"
  by (auto simp: OsmID_init_def OsmID_post_init_def)

theorem OsmID_init_validates_witness:
  "OsmID_init ''N'' 1 None = Inr \<lparr>osm_type = ''N'', osm_id = 1, osm_class = None\<rparr>
   \<and> OsmID_init ''W'' 2 (Some ''highway'') =
       Inr \<lparr>osm_type = ''W'', osm_id = 2, osm_class = Some ''highway''\<rparr>
   \<and> OsmID_init ''R'' 3 None = Inr \<lparr>osm_type = ''R'', osm_id = 3, osm_class = None\<rparr>
   \<and> OsmID_init ''X'' 4 None =
       Inl (ValueError (''Illegal OSM type '' @ [CHR 0x27] @ ''X'' @ [CHR 0x27]
                        @ ''. Must be one of N, W, R.''))
   \<and> OsmID_init ''n'' 5 None =
       Inl (ValueError (''Illegal OSM type '' @ [CHR 0x27] @ ''n'' @ [CHR 0x27]
                        @ ''. Must be one of N, W, R.''))
   \<and> OsmID_init ''NW'' 6 None =
       Inl (ValueError (''Illegal OSM type '' @ [CHR 0x27] @ ''NW'' @ [CHR 0x27]
                        @ ''. Must be one of N, W, R.''))
   \<and> OsmID_init [] 7 None =
       Inl (ValueError (''Illegal OSM type '' @ [CHR 0x27] @ [] @ [CHR 0x27]
                        @ ''. Must be one of N, W, R.''))"
  using OsmID_init_validates [of "''N''" 1 None]
    OsmID_init_validates [of "''W''" 2 "Some ''highway''"]
    OsmID_init_validates [of "''R''" 3 None]
    OsmID_init_validates [of "''X''" 4 None]
    OsmID_init_validates [of "''n''" 5 None]
    OsmID_init_validates [of "''NW''" 6 None]
    OsmID_init_validates [of "[]" 7 None]
  by simp

subsection \<open>Point accessors\<close>

text \<open>
  C9. For every point, \<open>lat\<close> returns the field \<open>y\<close> and \<open>lon\<close> returns the field \<open>x\<close>;
  the point stores the two fields only. For \<open>Point(x=30.0, y=20.0)\<close> (bit patterns
  \<open>0x403E000000000000\<close> and \<open>0x4034000000000000\<close>) the latitude is 20 and the
  longitude is 30.
\<close>

theorem Point_lat_lon:
  "lat (Point x y) = y \<and> lon (Point x y) = x
   \<and> lat p = Point_y p \<and> lon p = Point_x p
   \<and> double_value (lat (Point 0x403E000000000000 0x4034000000000000)) = 20
   \<and> double_value (lon (Point 0x403E000000000000 0x4034000000000000)) = 30"
  by (simp add: lat_def lon_def double_value_def double_sign_def double_exponent_def
      double_fraction_def)

subsection \<open>GeometryFormat\<close>

text \<open>
  C7. Combining flags is associative and idempotent, \<open>NONE\<close> is its identity, and
  \<open>GEOJSON | KML\<close> contains \<open>GEOJSON\<close> and \<open>KML\<close> and neither \<open>SVG\<close> nor \<open>TEXT\<close>.
\<close>

theorem GeometryFormat_union_laws:
  "flag_or (flag_or a b) c = flag_or a (flag_or b c)
   \<and> flag_or f f = f
   \<and> flag_or NONE v = v \<and> flag_or v NONE = v
   \<and> flag_contains (flag_or GEOJSON KML) GEOJSON
   \<and> flag_contains (flag_or GEOJSON KML) KML
   \<and> \<not> flag_contains (flag_or GEOJSON KML) SVG
   \<and> \<not> flag_contains (flag_or GEOJSON KML) TEXT"
  by (simp add: flag_or_def flag_contains_def NONE_def GEOJSON_def KML_def SVG_def TEXT_def
      or.assoc)

subsection \<open>LookupDetails\<close>

text \<open>
  C8. Constructing \<open>LookupDetails\<close> with no arguments gives \<open>geometry_output = NONE\<close> and
  the four booleans false. The constructor is total, and each field of the result is its
  own argument, or its own default when the argument is left out: no field depends on
  another.
\<close>

theorem LookupDetails_defaults:
  "LookupDetails_init None None None None None =
     \<lparr>geometry_output = NONE, address_details = False, linked_places = False,
      parented_places = False, keywords = False\<rparr>
   \<and> geometry_output (LookupDetails_init g a l p k) = (case g of None \<Rightarrow> NONE | Some v \<Rightarrow> v)
   \<and> address_details (LookupDetails_init g a l p k) = (case a of None \<Rightarrow> False | Some v \<Rightarrow> v)
   \<and> linked_places (LookupDetails_init g a l p k) = (case l of None \<Rightarrow> False | Some v \<Rightarrow> v)
   \<and> parented_places (LookupDetails_init g a l p k) = (case p of None \<Rightarrow> False | Some v \<Rightarrow> v)
   \<and> keywords (LookupDetails_init g a l p k) = (case k of None \<Rightarrow> False | Some v \<Rightarrow> v)"
  by (simp add: LookupDetails_init_def)

subsection \<open>Decoding a point\<close>

text \<open>A buffer of 25 bytes, and the four fields that \<open>unpack_iidd\<close> reads from its tail.\<close>

lemma list25:
  assumes "length (xs :: 'a list) = 25"
  obtains b0 b1 b2 b3 b4 b5 b6 b7 b8 b9 b10 b11 b12 b13 b14 b15 b16 b17 b18 b19 b20 b21 b22 b23 b24
  where "xs = [b0, b1, b2, b3, b4, b5, b6, b7, b8, b9, b10, b11, b12, b13, b14, b15, b16,
               b17, b18, b19, b20, b21, b22, b23, b24]"
  using assms by (auto simp: eval_nat_numeral length_Suc_conv)

lemma unpack_iidd_fields:
  assumes "length wkb = 25"
  shows "unpack_iidd ord (drop 1 wkb) =
     Inr (unpack_i ord [wkb ! 1, wkb ! 2, wkb ! 3, wkb ! 4],
          unpack_i ord [wkb ! 5, wkb ! 6, wkb ! 7, wkb ! 8],
          unpack_d ord [wkb ! 9, wkb ! 10, wkb ! 11, wkb ! 12, wkb ! 13, wkb ! 14, wkb ! 15, wkb ! 16],
          unpack_d ord [wkb ! 17, wkb ! 18, wkb ! 19, wkb ! 20, wkb ! 21, wkb ! 22, wkb ! 23, wkb ! 24])"
proof -
  from assms obtain b0 b1 b2 b3 b4 b5 b6 b7 b8 b9 b10 b11 b12 b13 b14 b15 b16 b17 b18 b19 b20 b21 b22 b23 b24
    where "wkb = [b0, b1, b2, b3, b4, b5, b6, b7, b8, b9, b10, b11, b12, b13, b14, b15, b16,
               b17, b18, b19, b20, b21, b22, b23, b24]"
    by (rule list25)
  then show ?thesis by (simp add: unpack_iidd_def)
qed

text \<open>The fields byte by byte: the first byte is the most significant one in big-endian order.\<close>

lemma unpack_d_bytes:
  "unpack_d BigEndian [b0, b1, b2, b3, b4, b5, b6, b7] =
     push_bit 56 (ucast b0) OR push_bit 48 (ucast b1) OR push_bit 40 (ucast b2)
     OR push_bit 32 (ucast b3) OR push_bit 24 (ucast b4) OR push_bit 16 (ucast b5)
     OR push_bit 8 (ucast b6) OR ucast b7"
  "unpack_d LittleEndian [b0, b1, b2, b3, b4, b5, b6, b7] =
     push_bit 56 (ucast b7) OR push_bit 48 (ucast b6) OR push_bit 40 (ucast b5)
     OR push_bit 32 (ucast b4) OR push_bit 24 (ucast b3) OR push_bit 16 (ucast b2)
     OR push_bit 8 (ucast b1) OR ucast b0"
  by (simp_all add: unpack_d_def from_bytes_def from_be_def push_bit_or push_bit_push_bit or.assoc)

lemma unpack_i_bytes:
  "unpack_i BigEndian [b0, b1, b2, b3] =
     sint (push_bit 24 (ucast b0) OR push_bit 16 (ucast b1) OR push_bit 8 (ucast b2)
           OR ucast b3 :: 32 word)"
  "unpack_i LittleEndian [b0, b1, b2, b3] =
     sint (push_bit 24 (ucast b3) OR push_bit 16 (ucast b2) OR push_bit 8 (ucast b1)
           OR ucast b0 :: 32 word)"
  by (simp_all add: unpack_i_def from_bytes_def from_be_def push_bit_or push_bit_push_bit or.assoc)

text \<open>
  C1. For every buffer of 25 bytes whose byte 0 is 0 (big-endian) or 1 (little-endian),
  whose bytes 1..4 read in that byte order are the geometry-type code \<open>0x20000001\<close> and
  whose bytes 5..8 are the spatial-reference identifier 4326, \<open>from_wkb\<close> succeeds and
  returns the point whose \<open>x\<close> is the double in bytes 9..16 and whose \<open>y\<close> is the
  double in bytes 17..24, both read in the same byte order.
\<close>

theorem from_wkb_decodes_point:
  assumes "length wkb = 25"
    and "wkb ! 0 = 0 \<and> ord = BigEndian \<or> wkb ! 0 = 1 \<and> ord = LittleEndian"
    and "unpack_i ord [wkb ! 1, wkb ! 2, wkb ! 3, wkb ! 4] = 0x20000001"
    and "unpack_i ord [wkb ! 5, wkb ! 6, wkb ! 7, wkb ! 8] = 4326"
  shows "from_wkb wkb =
     Inr (Point (unpack_d ord [wkb ! 9, wkb ! 10, wkb ! 11, wkb ! 12, wkb ! 13, wkb ! 14, wkb ! 15, wkb ! 16])
                (unpack_d ord [wkb ! 17, wkb ! 18, wkb ! 19, wkb ! 20, wkb ! 21, wkb ! 22, wkb ! 23, wkb ! 24]))"
  using assms(2-4)
  by (auto simp del: One_nat_def simp add: from_wkb_def assms(1) unpack_iidd_fields [OF assms(1)])

theorem from_wkb_decodes_point_witness:
  "from_wkb [0, 0x20, 0, 0, 1, 0, 0, 0x10, 0xE6, 0x40, 0x3E, 0, 0, 0, 0, 0, 0,
             0x40, 0x34, 0, 0, 0, 0, 0, 0]
     = Inr (Point 0x403E000000000000 0x4034000000000000)
   \<and> from_wkb [1, 1, 0, 0, 0x20, 0xE6, 0x10, 0, 0, 0x9A, 0x99, 0x99, 0x99, 0x99, 0x99, 0xB9, 0x3F,
               1, 2, 3, 4, 5, 6, 7, 8]
     = Inr (Point 0x3FB999999999999A 0x0807060504030201)"
  using from_wkb_decodes_point [of "[0, 0x20, 0, 0, 1, 0, 0, 0x10, 0xE6, 0x40, 0x3E, 0, 0, 0, 0, 0, 0,
             0x40, 0x34, 0, 0, 0, 0, 0, 0]" BigEndian]
    from_wkb_decodes_point [of "[1, 1, 0, 0, 0x20, 0xE6, 0x10, 0, 0, 0x9A, 0x99, 0x99, 0x99, 0x99, 0x99, 0xB9, 0x3F,
               1, 2, 3, 4, 5, 6, 7, 8]" LittleEndian]
  by (simp add: unpack_i_def unpack_d_def from_bytes_def from_be_def)

text \<open>
  C2. \<open>from_wkb\<close> fails exactly on an invalid buffer, always with a \<open>ValueError\<close>, and
  the first failing check decides the message: a length other than 25; a byte 0 that is
  neither 0 nor 1; a geometry-type code other than \<open>0x20000001\<close>; a spatial-reference
  identifier other than 4326. A failure returns no point.
\<close>

theorem from_wkb_errors:
  "from_wkb wkb =
     (if length wkb = 25 then
        if wkb ! 0 = 0 \<or> wkb ! 0 = 1 then
          let ord = (if wkb ! 0 = 0 then BigEndian else LittleEndian) in
          if unpack_i ord [wkb ! 1, wkb ! 2, wkb ! 3, wkb ! 4] = 0x20000001 then
            if unpack_i ord [wkb ! 5, wkb ! 6, wkb ! 7, wkb ! 8] = 4326 then
              Inr (Point
                (unpack_d ord [wkb ! 9, wkb ! 10, wkb ! 11, wkb ! 12, wkb ! 13, wkb ! 14, wkb ! 15, wkb ! 16])
                (unpack_d ord [wkb ! 17, wkb ! 18, wkb ! 19, wkb ! 20, wkb ! 21, wkb ! 22, wkb ! 23, wkb ! 24]))
            else Inl (ValueError ''Only WGS84 WKB supported.'')
          else Inl (ValueError ''WKB must be a point geometry.'')
        else Inl (ValueError ''WKB has unknown endian value.'')
      else Inl (ValueError ''Point wkb has unexpected length''))
   \<and> isl (from_wkb wkb) =
       (\<not> (length wkb = 25 \<and> (wkb ! 0 = 0 \<or> wkb ! 0 = 1)
           \<and> unpack_i (if wkb ! 0 = 0 then BigEndian else LittleEndian)
                [wkb ! 1, wkb ! 2, wkb ! 3, wkb ! 4] = 0x20000001
           \<and> unpack_i (if wkb ! 0 = 0 then BigEndian else LittleEndian)
                [wkb ! 5, wkb ! 6, wkb ! 7, wkb ! 8] = 4326))"
proof (cases "length wkb = 25")
  case True
  show ?thesis
    by (simp del: One_nat_def add: from_wkb_def True unpack_iidd_fields [OF True] Let_def)
next
  case False
  then show ?thesis by (simp add: from_wkb_def)
qed

theorem from_wkb_errors_witness:
  "from_wkb [0, 1, 2] = Inl (ValueError ''Point wkb has unexpected length'')
   \<and> from_wkb [0, 0x20, 0, 0, 1, 0, 0, 0x10, 0xE6, 0x3F, 0xF0, 0, 0, 0, 0, 0, 0,
               0xC0, 8, 0, 0, 0, 0, 0, 0, 0]
       = Inl (ValueError ''Point wkb has unexpected length'')
   \<and> from_wkb [2, 0x20, 0, 0, 1, 0, 0, 0x10, 0xE6, 0x3F, 0xF0, 0, 0, 0, 0, 0, 0,
               0xC0, 8, 0, 0, 0, 0, 0, 0]
       = Inl (ValueError ''WKB has unknown endian value.'')
   \<and> from_wkb [0, 0, 0, 0, 1, 0, 0, 0x10, 0xE6, 0x3F, 0xF0, 0, 0, 0, 0, 0, 0,
               0xC0, 8, 0, 0, 0, 0, 0, 0]
       = Inl (ValueError ''WKB must be a point geometry.'')
   \<and> from_wkb [1, 1, 0, 0, 0x20, 0x11, 0x0F, 0, 0, 0, 0, 0, 0, 0, 0, 0xF0, 0x3F,
               0, 0, 0, 0, 0, 0, 8, 0xC0]
       = Inl (ValueError ''Only WGS84 WKB supported.'')
   \<and> from_wkb [1, 1, 0, 0, 0x20, 0xE6, 0x10, 0, 0, 0, 0, 0, 0, 0, 0, 0xF0, 0x3F,
               0, 0, 0, 0, 0, 0, 8, 0xC0]
       = Inr (Point 0x3FF0000000000000 0xC008000000000000)"
  using from_wkb_errors [of "[0, 1, 2]"]
    from_wkb_errors [of "[0, 0x20, 0, 0, 1, 0, 0, 0x10, 0xE6, 0x3F, 0xF0, 0, 0, 0, 0, 0, 0,
               0xC0, 8, 0, 0, 0, 0, 0, 0, 0]"]
    from_wkb_errors [of "[2, 0x20, 0, 0, 1, 0, 0, 0x10, 0xE6, 0x3F, 0xF0, 0, 0, 0, 0, 0, 0,
               0xC0, 8, 0, 0, 0, 0, 0, 0]"]
    from_wkb_errors [of "[0, 0, 0, 0, 1, 0, 0, 0x10, 0xE6, 0x3F, 0xF0, 0, 0, 0, 0, 0, 0,
               0xC0, 8, 0, 0, 0, 0, 0, 0]"]
    from_wkb_errors [of "[1, 1, 0, 0, 0x20, 0x11, 0x0F, 0, 0, 0, 0, 0, 0, 0, 0, 0xF0, 0x3F,
               0, 0, 0, 0, 0, 0, 8, 0xC0]"]
    from_wkb_errors [of "[1, 1, 0, 0, 0x20, 0xE6, 0x10, 0, 0, 0, 0, 0, 0, 0, 0, 0xF0, 0x3F,
               0, 0, 0, 0, 0, 0, 8, 0xC0]"]
  by (simp add: unpack_i_def unpack_d_def from_bytes_def from_be_def)

subsection \<open>Encoding and decoding again\<close>

lemma from_be_snoc: "from_be (bs @ [b]) = push_bit 8 (from_be bs) OR ucast b"
  by (simp add: from_be_def)

lemma bit_from_be:
  "bit (from_be bs :: 'a::len word) n \<longleftrightarrow>
     n < LENGTH('a) \<and> n div 8 < length bs \<and> bit (rev bs ! (n div 8)) (n mod 8)"
proof (induction bs arbitrary: n rule: rev_induct)
  case Nil
  then show ?case by (simp add: from_be_def)
next
  case (snoc b bs)
  show ?case
  proof (cases "n < 8")
    case True
    then show ?thesis
      by (auto simp: from_be_snoc bit_simps snoc.IH dest: bit_imp_le_length)
  next
    case False
    then obtain m where n: "n = m + 8"
      by (metis add.commute le_add_diff_inverse not_less)
    show ?thesis
      by (auto simp: n from_be_snoc bit_simps snoc.IH dest: bit_imp_le_length)
  qed
qed

lemma from_bytes_to_bytes:
  assumes "LENGTH('a::len) \<le> 8 * n"
  shows "from_bytes ord (to_bytes ord n w) = (w :: 'a word)"
proof -
  have "from_be (rev (map (\<lambda>i. ucast (drop_bit (8 * i) w) :: byte) [0..<n])) = w"
  proof (rule bit_word_eqI)
    fix k assume k: "k < LENGTH('a)"
    with assms have "k div 8 < n" by simp
    with k show "bit (from_be (rev (map (\<lambda>i. ucast (drop_bit (8 * i) w) :: byte) [0..<n])) :: 'a word) k = bit w k"
      by (simp add: bit_from_be bit_simps)
  qed
  then show ?thesis
    by (cases ord) (simp_all add: from_bytes_def to_bytes_def)
qed

lemma length_to_bytes: "length (to_bytes ord n w) = n"
  by (cases ord) (simp_all add: to_bytes_def)

lemma from_wkb_ewkb_point:
  "from_wkb (ewkb_point ord 0x20000001 4326 x y) = Inr (Point x y)"
proof -
  have i: "unpack_i ord (to_bytes ord 4 (w :: 32 word)) = sint w" for w
    by (simp add: unpack_i_def from_bytes_to_bytes)
  have d: "unpack_d ord (to_bytes ord 8 w) = w" for w
    by (simp add: unpack_d_def from_bytes_to_bytes)
  have "unpack_iidd ord (drop 1 (ewkb_point ord 0x20000001 4326 x y)) = Inr (0x20000001, 4326, x, y)"
    by (simp add: ewkb_point_def unpack_iidd_def length_to_bytes i d)
  then show ?thesis
    by (cases ord) (simp_all add: from_wkb_def, simp_all add: ewkb_point_def length_to_bytes)
qed

text \<open>
  C3. The point (1.0, -3.0), that is the bit patterns \<open>0x3FF0000000000000\<close> and
  \<open>0xC008000000000000\<close>, laid out big-endian with geometry-type code \<open>0x20000001\<close> and
  spatial-reference identifier 4326, decodes to exactly that point; laid out
  little-endian it decodes to the same point. The same holds for every pair of doubles.
\<close>

theorem from_wkb_roundtrip:
  "ewkb_point BigEndian 0x20000001 4326 0x3FF0000000000000 0xC008000000000000 =
     [0, 0x20, 0, 0, 1, 0, 0, 0x10, 0xE6, 0x3F, 0xF0, 0, 0, 0, 0, 0, 0, 0xC0, 8, 0, 0, 0, 0, 0, 0]
   \<and> ewkb_point LittleEndian 0x20000001 4326 0x3FF0000000000000 0xC008000000000000 =
     [1, 1, 0, 0, 0x20, 0xE6, 0x10, 0, 0, 0, 0, 0, 0, 0, 0, 0xF0, 0x3F, 0, 0, 0, 0, 0, 0, 8, 0xC0]
   \<and> from_wkb (ewkb_point BigEndian 0x20000001 4326 0x3FF0000000000000 0xC008000000000000)
       = Inr (Point 0x3FF0000000000000 0xC008000000000000)
   \<and> from_wkb (ewkb_point LittleEndian 0x20000001 4326 0x3FF0000000000000 0xC008000000000000)
       = Inr (Point 0x3FF0000000000000 0xC008000000000000)
   \<and> double_value 0x3FF0000000000000 = 1 \<and> double_value 0xC008000000000000 = - 3
   \<and> from_wkb (ewkb_point BigEndian 0x20000001 4326 x y) = Inr (Point x y)
   \<and> from_wkb (ewkb_point LittleEndian 0x20000001 4326 x y) = Inr (Point x y)"
proof -
  have be: "ewkb_point BigEndian 0x20000001 4326 0x3FF0000000000000 0xC008000000000000 =
     [0, 0x20, 0, 0, 1, 0, 0, 0x10, 0xE6, 0x3F, 0xF0, 0, 0, 0, 0, 0, 0, 0xC0, 8, 0, 0, 0, 0, 0, 0]"
    by (simp add: ewkb_point_def to_bytes_def upt_rec)
  have le: "ewkb_point LittleEndian 0x20000001 4326 0x3FF0000000000000 0xC008000000000000 =
     [1, 1, 0, 0, 0x20, 0xE6, 0x10, 0, 0, 0, 0, 0, 0, 0, 0, 0xF0, 0x3F, 0, 0, 0, 0, 0, 0, 8, 0xC0]"
    by (simp add: ewkb_point_def to_bytes_def upt_rec)
  have v: "double_value 0x3FF0000000000000 = 1" "double_value 0xC008000000000000 = - 3"
    by (simp_all add: double_value_def double_sign_def double_exponent_def double_fraction_def)
  show ?thesis
    by (intro conjI be le v from_wkb_ewkb_point)
qed

subsection \<open>The characters of a float's text form\<close>










subsection \<open>The output of \<open>to_geojson\<close>\<close>


text \<open>The layouts of the text form, at values on both sides of each threshold.\<close>

lemma float_repr_layouts:
  "float_repr 0x3FB999999999999A = ''0.1''"
  "float_repr 0x4049072B020C49BA = ''50.056''"
  "float_repr 0x3F1A36E2EB1C432D = ''0.0001''"
  "float_repr 0x3EE4F8B588E368F1 = ''1e-05''"
  "float_repr 0x4340000000000000 = ''9007199254740992.0''"
  "float_repr 0x4341C37937E08000 = ''1e+16''"
  "float_repr 0x44B52D02C7E14AF6 = ''1e+23''"
  "float_repr 0x8000000000000000 = ''-0.0''"
  by code_simp+


































subsection \<open>Assignments to an OsmID\<close>

text \<open>
  The claim C5 as the specification words it, that the element type of an \<open>OsmID\<close> cannot
  change after construction, fails on the code: the class is an ordinary dataclass, and
  an assignment to \<open>osm_type\<close> stores any string.
\<close>

theorem OsmID_type_reassigned_counterexample:
  "OsmID_init ''N'' 1 None = Inr \<lparr>osm_type = ''N'', osm_id = 1, osm_class = None\<rparr>
   \<and> osm_type (OsmID_setattr \<lparr>osm_type = ''N'', osm_id = 1, osm_class = None\<rparr>
                 (Set_osm_type ''X'')) = ''X''
   \<and> \<not> osm_type (OsmID_setattr \<lparr>osm_type = ''N'', osm_id = 1, osm_class = None\<rparr>
                 (Set_osm_type ''X'')) \<in> set [''N'', ''W'', ''R'']"
  by (simp add: OsmID_init_def OsmID_post_init_def)

lemma OsmID_setattr_keeps_type:
  assumes "osm_type self \<in> set [''N'', ''W'', ''R'']"
    and "\<forall>v. a = Set_osm_type v \<longrightarrow> v \<in> set [''N'', ''W'', ''R'']"
  shows "osm_type (OsmID_setattr self a) \<in> set [''N'', ''W'', ''R'']"
  using assms by (cases a) simp_all

text \<open>
  C5, amended. Every \<open>OsmID\<close> that the constructor returns has its element type among
  \<^verbatim>\<open>N\<close>, \<^verbatim>\<open>W\<close>, \<^verbatim>\<open>R\<close>, and the element type stays among them after any sequence of field
  assignments in which every value assigned to \<open>osm_type\<close> is one of the three codes.
\<close>

theorem OsmID_type_kept_by_legal_assignments:
  assumes "OsmID_init t i c = Inr self"
    and "\<forall>v. Set_osm_type v \<in> set as \<longrightarrow> v \<in> set [''N'', ''W'', ''R'']"
  shows "osm_type (foldl OsmID_setattr self as) \<in> set [''N'', ''W'', ''R'']"
proof -
  have init: "osm_type self \<in> set [''N'', ''W'', ''R'']"
    using assms(1) by (auto simp: OsmID_init_def OsmID_post_init_def Let_def split: if_splits)
  show ?thesis
    using init assms(2)
  proof (induction as arbitrary: self)
    case Nil
    then show ?case by simp
  next
    case (Cons a as)
    have "osm_type (OsmID_setattr self a) \<in> set [''N'', ''W'', ''R'']"
      using Cons.prems by (intro OsmID_setattr_keeps_type) auto
    moreover have "\<forall>v. Set_osm_type v \<in> set as \<longrightarrow> v \<in> set [''N'', ''W'', ''R'']"
      using Cons.prems(2) by simp
    ultimately show ?case
      using Cons.IH by simp
  qed
qed

theorem OsmID_type_kept_by_legal_assignments_witness:
  "OsmID_init ''W'' 5 None = Inr \<lparr>osm_type = ''W'', osm_id = 5, osm_class = None\<rparr>
   \<and> osm_type (foldl OsmID_setattr \<lparr>osm_type = ''W'', osm_id = 5, osm_class = None\<rparr>
        [Set_osm_id 7, Set_osm_type ''R'', Set_osm_class (Some ''boundary'')])
       \<in> set [''N'', ''W'', ''R'']
   \<and> foldl OsmID_setattr \<lparr>osm_type = ''W'', osm_id = 5, osm_class = None\<rparr>
        [Set_osm_id 7, Set_osm_type ''R'', Set_osm_class (Some ''boundary'')]
       = \<lparr>osm_type = ''R'', osm_id = 7, osm_class = Some ''boundary''\<rparr>"
proof -
  have i: "OsmID_init ''W'' 5 None = Inr \<lparr>osm_type = ''W'', osm_id = 5, osm_class = None\<rparr>"
    by (simp add: OsmID_init_def OsmID_post_init_def)
  have l: "\<forall>v. Set_osm_type v \<in> set [Set_osm_id 7, Set_osm_type ''R'', Set_osm_class (Some ''boundary'')]
      \<longrightarrow> v \<in> set [''N'', ''W'', ''R'']"
    by simp
  show ?thesis
    using OsmID_type_kept_by_legal_assignments [OF i l] i by simp
qed

end
